theory Spec2Isabelle
  imports Main "HOL-Library.Word" "HOL-Library.Signed_Division"
begin

unbundle bit_operations_syntax

section \<open>Toolkit values used by the search list item delegate\<close>

text \<open>
  The delegate of \<^verbatim>\<open>src/gui/search/search_list_item_delegate.cpp\<close> is written against
  the Qt toolkit. The toolkit's value types are embedded the way the toolkit stores them;
  a C++ \<^verbatim>\<open>int\<close> is a 32-bit word read in two's complement.
\<close>

type_synonym cint = "32 word"

text \<open>Integer division of C++ truncates towards zero.\<close>

definition c_div :: "cint \<Rightarrow> cint \<Rightarrow> cint" where
  "c_div a b = word_of_int (sint a sdiv sint b)"

text \<open>\<^verbatim>\<open>qMin\<close> on \<^verbatim>\<open>int\<close>: \<^verbatim>\<open>(a < b) ? a : b\<close>.\<close>

definition qMin :: "cint \<Rightarrow> cint \<Rightarrow> cint" where
  "qMin a b = (if a <s b then a else b)"

text \<open>Dereferencing a null pointer is the one fault the delegate's code can run into.\<close>

datatype fault = NullPointer

subsection \<open>QRect and QSize\<close>

text \<open>A \<^verbatim>\<open>QRect\<close> stores its left, top, right and bottom coordinates, all inclusive.\<close>

record QRect =
  x1 :: cint
  y1 :: cint
  x2 :: cint
  y2 :: cint

definition rect_width :: "QRect \<Rightarrow> cint" where
  "rect_width r = x2 r - x1 r + 1"

definition rect_height :: "QRect \<Rightarrow> cint" where
  "rect_height r = y2 r - y1 r + 1"

definition setWidth :: "cint \<Rightarrow> QRect \<Rightarrow> QRect" where
  "setWidth w r = r\<lparr>x2 := x1 r + w - 1\<rparr>"

definition setHeight :: "cint \<Rightarrow> QRect \<Rightarrow> QRect" where
  "setHeight h r = r\<lparr>y2 := y1 r + h - 1\<rparr>"

definition adjust :: "cint \<Rightarrow> cint \<Rightarrow> cint \<Rightarrow> cint \<Rightarrow> QRect \<Rightarrow> QRect" where
  "adjust dx1 dy1 dx2 dy2 r =
     \<lparr>x1 = x1 r + dx1, y1 = y1 r + dy1, x2 = x2 r + dx2, y2 = y2 r + dy2\<rparr>"

record QSize =
  size_width :: cint
  size_height :: cint

subsection \<open>Colours, brushes, palette, fonts\<close>

datatype QColor = QColor cint

datatype QBrush = QBrush (brush_color: QColor)

record QPalette =
  highlight :: QBrush
  mid :: QBrush
  alternateBase :: QBrush
  dark :: QBrush
  placeholderText :: QBrush

datatype Weight =
  Thin | ExtraLight | Light | Normal | Medium | DemiBold | Bold | ExtraBold | Black

record QFont =
  family :: string
  pointSize :: cint
  weight :: Weight

definition setWeight :: "Weight \<Rightarrow> QFont \<Rightarrow> QFont" where
  "setWeight w f = f\<lparr>weight := w\<rparr>"

text \<open>\<^verbatim>\<open>QFont::setPointSize\<close> ignores a size that is not positive.\<close>

definition setPointSize :: "cint \<Rightarrow> QFont \<Rightarrow> QFont" where
  "setPointSize n f = (if n \<le>s 0 then f else f\<lparr>pointSize := n\<rparr>)"

datatype ElideMode = ElideLeft | ElideRight | ElideMiddle | ElideNone

definition AlignVCenter :: cint where "AlignVCenter = 0x0080"
definition TextSingleLine :: cint where "TextSingleLine = 0x0100"
definition TextWordWrap :: cint where "TextWordWrap = 0x1000"
definition State_Selected :: cint where "State_Selected = 0x00008000"

subsection \<open>Images and painter paths\<close>

text \<open>An image or pixmap is its pixel data; the null image and the null pixmap are \<open>None\<close>.\<close>

type_synonym QImage = "nat list option"
type_synonym QPixmap = "nat list option"

definition fromImage :: "QImage \<Rightarrow> QPixmap" where
  "fromImage img = img"

datatype path_element = RoundedRect QRect cint cint

type_synonym QPainterPath = "path_element list"

definition addRoundedRect :: "QRect \<Rightarrow> cint \<Rightarrow> cint \<Rightarrow> QPainterPath \<Rightarrow> QPainterPath" where
  "addRoundedRect r xRadius yRadius path = path @ [RoundedRect r xRadius yRadius]"

subsection \<open>The painter\<close>

text \<open>
  A \<^verbatim>\<open>QPainter\<close> has a current state (of which the delegate touches the font, the pen
  and the clip path), a stack of saved states, and the surface it draws on. The surface is
  the sequence of drawing operations in the order they were issued; a text is recorded with
  the font and the pen it was drawn with.
\<close>

record QPainterState =
  ps_font :: QFont
  ps_pen :: QColor
  ps_clipPath :: "QPainterPath option"

datatype draw_op =
  is_fill: FillRect (op_rect: QRect) (op_brush: QBrush)
| is_pixmap: DrawPixmap (op_rect: QRect) (op_pixels: "nat list")
| is_text: DrawText (op_rect: QRect) (op_flags: cint) (op_text: string) (op_font: QFont) (op_pen: QColor)

record QPainter =
  cur :: QPainterState
  saved :: "QPainterState list"
  canvas :: "draw_op list"

definition painter_font :: "QPainter \<Rightarrow> QFont" where
  "painter_font p = ps_font (cur p)"

definition setFont :: "QFont \<Rightarrow> QPainter \<Rightarrow> QPainter" where
  "setFont f p = p\<lparr>cur := (cur p)\<lparr>ps_font := f\<rparr>\<rparr>"

definition setPen :: "QColor \<Rightarrow> QPainter \<Rightarrow> QPainter" where
  "setPen c p = p\<lparr>cur := (cur p)\<lparr>ps_pen := c\<rparr>\<rparr>"

definition setClipPath :: "QPainterPath \<Rightarrow> QPainter \<Rightarrow> QPainter" where
  "setClipPath path p = p\<lparr>cur := (cur p)\<lparr>ps_clipPath := Some path\<rparr>\<rparr>"

definition fillRect :: "QRect \<Rightarrow> QBrush \<Rightarrow> QPainter \<Rightarrow> QPainter" where
  "fillRect r b p = p\<lparr>canvas := canvas p @ [FillRect r b]\<rparr>"

text \<open>\<^verbatim>\<open>QPainter::drawPixmap\<close> returns at once when the pixmap is null.\<close>

definition drawPixmap :: "QRect \<Rightarrow> QPixmap \<Rightarrow> QPainter \<Rightarrow> QPainter" where
  "drawPixmap r pm p =
     (case pm of None \<Rightarrow> p | Some pixels \<Rightarrow> p\<lparr>canvas := canvas p @ [DrawPixmap r pixels]\<rparr>)"

definition drawText :: "QRect \<Rightarrow> cint \<Rightarrow> string \<Rightarrow> QPainter \<Rightarrow> QPainter" where
  "drawText r flags text p =
     p\<lparr>canvas := canvas p @ [DrawText r flags text (ps_font (cur p)) (ps_pen (cur p))]\<rparr>"

text \<open>
  \<^verbatim>\<open>QPainter::save\<close> pushes the current state; \<^verbatim>\<open>QPainter::restore\<close> pops it, and
  does nothing (but warn) when the stack is empty.
\<close>

definition save :: "QPainter \<Rightarrow> QPainter" where
  "save p = p\<lparr>saved := cur p # saved p\<rparr>"

definition restore :: "QPainter \<Rightarrow> QPainter" where
  "restore p = (case saved p of [] \<Rightarrow> p | s # ss \<Rightarrow> p\<lparr>cur := s, saved := ss\<rparr>)"

text \<open>
  Modelled from the spec: \<^verbatim>\<open>gui/utils/painter_state_saver.hpp\<close> is not part of the
  sources at hand. The specification says of the painter context that it "is saved and
  restored around each paint call": the constructor saves the painter's state and the
  destructor restores it.
\<close>

definition PainterStateSaver_ctor :: "QPainter \<Rightarrow> QPainter" where
  "PainterStateSaver_ctor painter = save painter"

text \<open>
  Modelled from the spec: the destructor of the same class, missing with it; it restores
  what the constructor saved.
\<close>

definition PainterStateSaver_dtor :: "QPainter \<Rightarrow> QPainter" where
  "PainterStateSaver_dtor painter = restore painter"

subsection \<open>Style option, item record, list model, model index\<close>

record QStyleOptionViewItem =
  opt_rect :: QRect
  opt_state :: cint
  opt_palette :: QPalette

text \<open>
  The item record is declared outside this file; the delegate reads three of its fields.
  \<^verbatim>\<open>episode_count\<close> is taken to be an \<^verbatim>\<open>int\<close> and \<^verbatim>\<open>synopsis\<close> is a
  \<^verbatim>\<open>std::string\<close>; the type of \<^verbatim>\<open>score\<close> is left open.
\<close>

record 's Anime =
  episode_count :: cint
  score :: 's
  synopsis :: string

text \<open>
  \<^verbatim>\<open>SearchListModel\<close> is declared outside this file. The delegate calls
  \<^verbatim>\<open>getAnime(index)\<close>, which yields a pointer to an item record (\<open>None\<close> is the null
  pointer), and, through \<^verbatim>\<open>index.data(Qt::DisplayRole).toString()\<close>, the model's display
  text. Both are taken as they come, as functions of the index's row and column.
\<close>

record 's SearchListModel =
  getAnime :: "cint \<Rightarrow> cint \<Rightarrow> 's Anime option"
  displayText :: "cint \<Rightarrow> cint \<Rightarrow> string"

record 's QModelIndex =
  row :: cint
  column :: cint
  model :: "'s SearchListModel option"

definition isValid :: "'s QModelIndex \<Rightarrow> bool" where
  "isValid index = (0 \<le>s row index \<and> 0 \<le>s column index \<and> model index \<noteq> None)"

text \<open>\<^verbatim>\<open>QModelIndex::data\<close> of an index without a model is an empty variant, whose text is empty.\<close>

definition index_displayText :: "'s QModelIndex \<Rightarrow> string" where
  "index_displayText index =
     (case model index of None \<Rightarrow> [] | Some m \<Rightarrow> displayText m (row index) (column index))"

subsection \<open>What the delegate takes from its environment\<close>

text \<open>
  The theme singleton, the file behind the image reader, the font metrics, the number
  formatting behind \<^verbatim>\<open>QString::arg\<close>, the decoding of a \<^verbatim>\<open>std::string\<close> and the base
  class's size hint are not computed by this file: they are parameters of the model.
\<close>

record 's Toolkit =
  theme_isDark :: bool
  imageReader_read :: "string \<Rightarrow> QImage"
  fontMetrics_height :: "QFont \<Rightarrow> cint"
  fontMetrics_boundingRect :: "QFont \<Rightarrow> string \<Rightarrow> QRect"
  fontMetrics_elidedText :: "QFont \<Rightarrow> string \<Rightarrow> ElideMode \<Rightarrow> cint \<Rightarrow> string"
  locale_int_text :: "cint \<Rightarrow> string"
  score_text :: "'s \<Rightarrow> string"
  locale_score_text :: "'s \<Rightarrow> string"
  fromStdString :: "string \<Rightarrow> string"
  QStyledItemDelegate_sizeHint :: "QStyleOptionViewItem \<Rightarrow> 's QModelIndex \<Rightarrow> QSize"

subsection \<open>The host view and the delegate object\<close>

record QListView =
  geometry :: QRect

record SearchListItemDelegate =
  parent :: "QListView option"
  m_pixmap :: QPixmap

text \<open>The constructor (lines 32 to 38); \<^verbatim>\<open>m_pixmap\<close> starts as the null pixmap.\<close>

definition SearchListItemDelegate_ctor :: "'s Toolkit \<Rightarrow> QListView option \<Rightarrow> SearchListItemDelegate" where
  "SearchListItemDelegate_ctor tk parent_view =
     (let img = imageReader_read tk ''./data/poster.jpg'';
          m_pixmap = None;
          m_pixmap = (if img \<noteq> None then fromImage img else m_pixmap)
      in \<lparr>parent = parent_view, m_pixmap = m_pixmap\<rparr>)"

section \<open>Text formatting\<close>

text \<open>
  A \<^verbatim>\<open>QString\<close> is modelled as a \<^typ>\<open>string\<close>, one character per code unit; every
  character the delegate writes itself lies below U+0100, the middle dot U+00B7 included.
\<close>

definition middle_dot :: char where
  "middle_dot = CHR 0xB7"

definition newline :: char where
  "newline = CHR 0x0A"

subsection \<open>Decimal text of an \<^verbatim>\<open>int\<close>\<close>

definition digit_char :: "nat \<Rightarrow> char" where
  "digit_char d = ''0123456789'' ! d"

function dec_digits :: "nat \<Rightarrow> string" where
  "dec_digits n = (if n < 10 then [digit_char n] else dec_digits (n div 10) @ [digit_char (n mod 10)])"
  by pat_completeness auto
termination
  by (relation "measure id") auto

declare dec_digits.simps [simp del]

definition int_text :: "cint \<Rightarrow> string" where
  "int_text n =
     (if sint n < 0 then CHR ''-'' # dec_digits (nat (- sint n)) else dec_digits (nat (sint n)))"

subsection \<open>\<^verbatim>\<open>QString::arg\<close>\<close>

text \<open>
  \<^verbatim>\<open>QString::arg\<close> scans the string for place markers: a percent sign, an optional
  \<^verbatim>\<open>L\<close>, and one or two decimal digits. It replaces every marker that carries the lowest
  number found, by the argument's text, or by its localised text where the marker has the
  \<^verbatim>\<open>L\<close>; a string without markers is returned as it is.
\<close>

datatype piece = Plain char | Marker nat bool string

definition is_digit :: "char \<Rightarrow> bool" where
  "is_digit c = (c \<in> set ''0123456789'')"

definition digit_value :: "char \<Rightarrow> nat" where
  "digit_value c = of_char c - 48"

fun markers :: "string \<Rightarrow> piece list" where
  "markers [] = []"
| "markers [c] = [Plain c]"
| "markers (c # d # cs) =
     (if c \<noteq> CHR ''%'' then Plain c # markers (d # cs)
      else if d = CHR ''L'' then
        (case cs of
           [] \<Rightarrow> [Plain c, Plain d]
         | e # es \<Rightarrow>
             if is_digit e then
               (case es of
                  [] \<Rightarrow> [Marker (digit_value e) True [c, d, e]]
                | f # fs \<Rightarrow>
                    if is_digit f
                    then Marker (10 * digit_value e + digit_value f) True [c, d, e, f] # markers fs
                    else Marker (digit_value e) True [c, d, e] # markers es)
             else Plain c # Plain d # markers cs)
      else if is_digit d then
        (case cs of
           [] \<Rightarrow> [Marker (digit_value d) False [c, d]]
         | e # es \<Rightarrow>
             if is_digit e
             then Marker (10 * digit_value d + digit_value e) False [c, d, e] # markers es
             else Marker (digit_value d) False [c, d] # markers cs)
      else Plain c # markers (d # cs))"

fun marker_numbers :: "piece list \<Rightarrow> nat list" where
  "marker_numbers [] = []"
| "marker_numbers (Plain c # ps) = marker_numbers ps"
| "marker_numbers (Marker n loc src # ps) = n # marker_numbers ps"

fun replace_marker :: "nat \<Rightarrow> string \<Rightarrow> string \<Rightarrow> piece \<Rightarrow> string" where
  "replace_marker lowest a la (Plain c) = [c]"
| "replace_marker lowest a la (Marker n loc src) =
     (if n = lowest then (if loc then la else a) else src)"

definition QString_arg :: "string \<Rightarrow> string \<Rightarrow> string \<Rightarrow> string" where
  "QString_arg s a la =
     (let ps = markers s
      in case marker_numbers ps of
           [] \<Rightarrow> s
         | n # ns \<Rightarrow> concat (map (replace_marker (fold min ns n) a la) ps))"

section \<open>Painting a cell\<close>

text \<open>
  \<^verbatim>\<open>SearchListItemDelegate::paint\<close> (lines 40 to 163), block by block as the source
  has it. Each block takes the rectangle that is left and the painter, and hands both on.
\<close>

definition paint_background ::
  "'s Toolkit \<Rightarrow> QStyleOptionViewItem \<Rightarrow> QStyleOptionViewItem \<Rightarrow> QRect \<Rightarrow> QPainter \<Rightarrow> QPainter" where
  "paint_background tk option opt rect painter =
     (if opt_state option AND State_Selected \<noteq> 0 then fillRect rect (highlight (opt_palette opt)) painter
      else if theme_isDark tk then fillRect rect (mid (opt_palette opt)) painter
      else fillRect rect (alternateBase (opt_palette opt)) painter)"

definition paint_poster ::
  "'s Toolkit \<Rightarrow> SearchListItemDelegate \<Rightarrow> QStyleOptionViewItem \<Rightarrow> QRect \<Rightarrow> QPainter \<Rightarrow> QRect \<times> QPainter" where
  "paint_poster tk this opt rect painter =
     (let posterRect = rect;
          posterRect = setWidth 140 posterRect;
          painter = (if theme_isDark tk then fillRect posterRect (dark (opt_palette opt)) painter
                     else fillRect posterRect (mid (opt_palette opt)) painter);
          painter = drawPixmap posterRect (m_pixmap this) painter;
          rect = adjust 140 0 0 0 rect
      in (rect, painter))"

definition paint_title ::
  "'s Toolkit \<Rightarrow> QStyleOptionViewItem \<Rightarrow> 's QModelIndex \<Rightarrow> QRect \<Rightarrow> QPainter \<Rightarrow> QRect \<times> QPainter" where
  "paint_title tk opt index rect painter =
     (let titleRect = rect;
          titleRect = setHeight 24 titleRect;
          painter = fillRect titleRect (dark (opt_palette opt)) painter;
          titleRect = adjust 8 0 (- 8) 0 titleRect;
          titleFont = painter_font painter;
          titleFont = setWeight DemiBold titleFont;
          painter = setFont titleFont painter;
          title = index_displayText index;
          metrics = painter_font painter;
          elidedTitle = fontMetrics_elidedText tk metrics title ElideRight (rect_width titleRect);
          painter = drawText titleRect (AlignVCenter OR TextSingleLine) elidedTitle painter;
          rect = adjust 8 (24 + 8) (- 8) (- 8) rect
      in (rect, painter))"

definition summary_format :: string where
  "summary_format = ''TV '' @ [middle_dot] @ '' %1 episodes '' @ [middle_dot] @ '' %2''"

definition paint_summary ::
  "'s Toolkit \<Rightarrow> 's Anime \<Rightarrow> QFont \<Rightarrow> QRect \<Rightarrow> QPainter \<Rightarrow> QRect \<times> QPainter" where
  "paint_summary tk item font rect painter =
     (let summary =
            QString_arg
              (QString_arg summary_format
                 (int_text (episode_count item)) (locale_int_text tk (episode_count item)))
              (score_text tk (score item)) (locale_score_text tk (score item));
          metrics = painter_font painter;
          summaryRect = rect;
          summaryRect = setHeight (fontMetrics_height tk metrics) summaryRect;
          painter = setFont font painter;
          painter = drawText summaryRect (AlignVCenter OR TextSingleLine) summary painter;
          rect = adjust 0 (rect_height summaryRect + 8) 0 0 rect
      in (rect, painter))"

definition details_titles :: string where
  "details_titles = ''Aired:'' @ [newline] @ ''Genres:'' @ [newline] @ ''Studios:''"

definition details_values :: string where
  "details_values =
     ''Jan 7, 2024 to Mar 31, 2024 (Airing)'' @ [newline] @
     ''Action, Adventure, Fantasy'' @ [newline] @
     ''A-1 Pictures''"

definition paint_details ::
  "'s Toolkit \<Rightarrow> QFont \<Rightarrow> QRect \<Rightarrow> QPainter \<Rightarrow> QRect \<times> QFont \<times> QPainter" where
  "paint_details tk detailsFont rect painter =
     (let titles = details_titles;
          values = details_values;
          detailsFont = setWeight DemiBold detailsFont;
          painter = setFont detailsFont painter;
          metrics = painter_font painter;
          titlesRect = rect;
          titlesRect = setHeight (fontMetrics_height tk metrics * 3) titlesRect;
          titlesRect = setWidth (rect_width (fontMetrics_boundingRect tk metrics ''Studios:'')) titlesRect;
          painter = drawText titlesRect 0 titles painter;
          detailsFont = setWeight Normal detailsFont;
          painter = setFont detailsFont painter;
          valuesRect = rect;
          valuesRect = setHeight (fontMetrics_height tk metrics * 3) valuesRect;
          valuesRect = adjust (rect_width titlesRect + 8) 0 0 0 valuesRect;
          painter = drawText valuesRect 0 values painter;
          rect = adjust 0 (rect_height titlesRect + 8) 0 0 rect
      in (rect, detailsFont, painter))"

definition paint_synopsis ::
  "'s Toolkit \<Rightarrow> QStyleOptionViewItem \<Rightarrow> 's Anime \<Rightarrow> QFont \<Rightarrow> QRect \<Rightarrow> QPainter \<Rightarrow> QPainter" where
  "paint_synopsis tk opt item detailsFont rect painter =
     (let synopsis_text = fromStdString tk (synopsis item);
          painter = setPen (brush_color (placeholderText (opt_palette opt))) painter;
          detailsFont = setPointSize 8 detailsFont;
          painter = setFont detailsFont painter;
          metrics = painter_font painter;
          synopsisRect = rect;
          synopsisRect =
            setHeight (qMin (rect_height synopsisRect) (fontMetrics_height tk metrics * 5)) synopsisRect;
          painter = drawText synopsisRect TextWordWrap synopsis_text painter
      in painter)"

text \<open>
  Lines 44 to 162, between the construction and the destruction of the state saver. The
  model pointer is used at line 45 and the item pointer at line 103, neither after a
  check: where the pointer is null the call faults, and what was drawn before is of no
  account.
\<close>

definition paint_body ::
  "'s Toolkit \<Rightarrow> SearchListItemDelegate \<Rightarrow> QPainter \<Rightarrow> QStyleOptionViewItem \<Rightarrow> 's QModelIndex
     \<Rightarrow> fault + QPainter" where
  "paint_body tk this painter option index =
     (case model index of
        None \<Rightarrow> Inl NullPointer
      | Some m \<Rightarrow>
          (let item = getAnime m (row index) (column index);
               opt = option;
               rect = opt_rect opt;
               path = addRoundedRect rect 4 4 [];
               painter = setClipPath path painter;
               painter = paint_background tk option opt rect painter;
               (rect, painter) = paint_poster tk this opt rect painter;
               font = painter_font painter;
               (rect, painter) = paint_title tk opt index rect painter
           in case item of
                None \<Rightarrow> Inl NullPointer
              | Some item \<Rightarrow>
                  (let (rect, painter) = paint_summary tk item font rect painter;
                       detailsFont = painter_font painter;
                       (rect, detailsFont, painter) = paint_details tk detailsFont rect painter;
                       painter = paint_synopsis tk opt item detailsFont rect painter
                   in Inr painter)))"

definition paint ::
  "'s Toolkit \<Rightarrow> SearchListItemDelegate \<Rightarrow> QPainter \<Rightarrow> QStyleOptionViewItem \<Rightarrow> 's QModelIndex
     \<Rightarrow> fault + QPainter" where
  "paint tk this painter option index =
     (case paint_body tk this (PainterStateSaver_ctor painter) option index of
        Inl f \<Rightarrow> Inl f
      | Inr painter \<Rightarrow> Inr (PainterStateSaver_dtor painter))"

subsection \<open>Reading the surface\<close>

text \<open>
  What a paint call has added to the surface, the texts and the fills among these
  operations, and the lines of a text.
\<close>

definition painted :: "QPainter \<Rightarrow> QPainter \<Rightarrow> draw_op list" where
  "painted p p' = drop (length (canvas p)) (canvas p')"

definition texts :: "draw_op list \<Rightarrow> draw_op list" where
  "texts ops = filter is_text ops"


fun text_lines :: "string \<Rightarrow> string list" where
  "text_lines [] = [[]]"
| "text_lines (c # cs) =
     (if c = newline then [] # text_lines cs
      else (case text_lines cs of [] \<Rightarrow> [[c]] | l # ls \<Rightarrow> (c # l) # ls))"

text \<open>
  The operations of a paint call that returns, in closed form: the rectangles and fonts
  of the blocks written out from the cell rectangle and the painter's font and pen on entry.
  Lemma \<open>paint_effect\<close> below proves that \<^const>\<open>paint\<close> draws exactly these.
\<close>

definition paint_operations ::
  "'s Toolkit \<Rightarrow> SearchListItemDelegate \<Rightarrow> QPainter \<Rightarrow> QStyleOptionViewItem \<Rightarrow> 's QModelIndex
     \<Rightarrow> 's Anime \<Rightarrow> draw_op list" where
  "paint_operations tk this painter option index item =
     (let cell = opt_rect option;
          pal = opt_palette option;
          f0 = ps_font (cur painter);
          pen0 = ps_pen (cur painter);
          fB = setWeight DemiBold f0;
          fN = setWeight Normal fB;
          f8 = setPointSize 8 fN;
          R1 = adjust 140 0 0 0 cell;
          R2 = adjust 8 32 (- 8) (- 8) R1;
          R3 = adjust 0 (fontMetrics_height tk fB + 8) 0 0 R2;
          R4 = adjust 0 (fontMetrics_height tk fB * 3 + 8) 0 0 R3;
          titleRect = adjust 8 0 (- 8) 0 (setHeight 24 R1);
          labelWidth = rect_width (fontMetrics_boundingRect tk fB ''Studios:'')
      in [FillRect cell
            (if opt_state option AND State_Selected \<noteq> 0 then highlight pal
             else if theme_isDark tk then mid pal else alternateBase pal),
          FillRect (setWidth 140 cell) (if theme_isDark tk then dark pal else mid pal)] @
         (case m_pixmap this of None \<Rightarrow> [] | Some px \<Rightarrow> [DrawPixmap (setWidth 140 cell) px]) @
         [FillRect (setHeight 24 R1) (dark pal),
          DrawText titleRect (AlignVCenter OR TextSingleLine)
            (fontMetrics_elidedText tk fB (index_displayText index) ElideRight (rect_width titleRect))
            fB pen0,
          DrawText (setHeight (fontMetrics_height tk fB) R2) (AlignVCenter OR TextSingleLine)
            (QString_arg
               (QString_arg summary_format
                  (int_text (episode_count item)) (locale_int_text tk (episode_count item)))
               (score_text tk (score item)) (locale_score_text tk (score item)))
            f0 pen0,
          DrawText (setWidth labelWidth (setHeight (fontMetrics_height tk fB * 3) R3))
            0 details_titles fB pen0,
          DrawText (adjust (labelWidth + 8) 0 0 0 (setHeight (fontMetrics_height tk fB * 3) R3))
            0 details_values fN pen0,
          DrawText (setHeight (qMin (rect_height R4) (fontMetrics_height tk f8 * 5)) R4)
            TextWordWrap (fromStdString tk (synopsis item)) f8 (brush_color (placeholderText pal))])"

section \<open>Size hint\<close>

text \<open>
  \<^verbatim>\<open>SearchListItemDelegate::itemSize\<close> (lines 179 to 194). The parent pointer is
  dereferenced without a check, so a delegate without a parent view faults.
\<close>

definition itemSize :: "SearchListItemDelegate \<Rightarrow> fault + QSize" where
  "itemSize this =
     (case parent this of
        None \<Rightarrow> Inl NullPointer
      | Some view \<Rightarrow>
          (let rect = geometry view;
               maxWidth = (360 :: cint);
               columns = (1 :: cint);
               columns = (if maxWidth * 2 <s rect_width rect then 2 else columns);
               columns = (if maxWidth * 3 <s rect_width rect then 3 else columns);
               columns = (if maxWidth * 4 <s rect_width rect then 4 else columns);
               spacing = (18 :: cint);
               width = c_div (rect_width rect - (spacing * (columns + 2))) columns;
               height = (210 :: cint)
           in Inr \<lparr>size_width = width, size_height = height\<rparr>))"

text \<open>\<^verbatim>\<open>SearchListItemDelegate::sizeHint\<close> (lines 165 to 169).\<close>

definition sizeHint ::
  "'s Toolkit \<Rightarrow> SearchListItemDelegate \<Rightarrow> QStyleOptionViewItem \<Rightarrow> 's QModelIndex \<Rightarrow> fault + QSize" where
  "sizeHint tk this option index =
     (if isValid index then itemSize this
      else Inr (QStyledItemDelegate_sizeHint tk option index))"

section \<open>A concrete cell\<close>

text \<open>
  A toolkit, a painter, a style option and a model of two rows on which the theorems below
  are instantiated. The fixed-pitch metrics give every character seven pixels; the second
  toolkit differs in one point, a font whose letters \<open>G\<close>, \<open>e\<close>, \<open>n\<close> and \<open>r\<close> are wide.
\<close>

definition fx_advance :: "QFont \<Rightarrow> string \<Rightarrow> cint" where
  "fx_advance f s = of_nat (7 * length s)"

text \<open>
  The fixture's right elision: the text itself where it fits, else the longest of its
  proper prefixes that fits with three dots appended, else nothing.
\<close>

definition fx_elidedText :: "QFont \<Rightarrow> string \<Rightarrow> ElideMode \<Rightarrow> cint \<Rightarrow> string" where
  "fx_elidedText f s mode w =
     (if fx_advance f s \<le>s w then s
      else case filter (\<lambda>c. fx_advance f c \<le>s w)
                  (map (\<lambda>n. take n s @ ''...'') (rev [0..<length s])) of
             [] \<Rightarrow> []
           | c # cs \<Rightarrow> c)"

definition fx_toolkit :: "nat Toolkit" where
  "fx_toolkit = \<lparr>
     theme_isDark = False,
     imageReader_read = (\<lambda>path. None),
     fontMetrics_height = (\<lambda>f. 2 * pointSize f),
     fontMetrics_boundingRect =
       (\<lambda>f s. \<lparr>x1 = 0, y1 = 0, x2 = fx_advance f s - 1, y2 = 2 * pointSize f - 1\<rparr>),
     fontMetrics_elidedText = fx_elidedText,
     locale_int_text = int_text,
     score_text = dec_digits,
     locale_score_text = dec_digits,
     fromStdString = (\<lambda>s. s),
     QStyledItemDelegate_sizeHint = (\<lambda>option index. \<lparr>size_width = 0, size_height = 0\<rparr>)\<rparr>"

definition fx_wide_advance :: "string \<Rightarrow> cint" where
  "fx_wide_advance s = of_nat (sum_list (map (\<lambda>c. if c \<in> set ''Genr'' then 9 else 5) s))"

definition fx_wide_toolkit :: "nat Toolkit" where
  "fx_wide_toolkit = fx_toolkit\<lparr>
     fontMetrics_boundingRect :=
       (\<lambda>f s. \<lparr>x1 = 0, y1 = 0, x2 = fx_wide_advance s - 1, y2 = 2 * pointSize f - 1\<rparr>)\<rparr>"

definition fx_palette :: QPalette where
  "fx_palette = \<lparr>highlight = QBrush (QColor 1), mid = QBrush (QColor 2),
     alternateBase = QBrush (QColor 3), dark = QBrush (QColor 4),
     placeholderText = QBrush (QColor 5)\<rparr>"

definition fx_option :: QStyleOptionViewItem where
  "fx_option = \<lparr>opt_rect = \<lparr>x1 = 18, y1 = 18, x2 = 359, y2 = 227\<rparr>, opt_state = 0,
     opt_palette = fx_palette\<rparr>"


definition fx_short_option :: QStyleOptionViewItem where
  "fx_short_option = fx_option\<lparr>opt_rect := \<lparr>x1 = 18, y1 = 18, x2 = 359, y2 = 167\<rparr>\<rparr>"

definition fx_font :: QFont where
  "fx_font = \<lparr>family = ''Sans'', pointSize = 9, weight = Normal\<rparr>"

definition fx_painter :: QPainter where
  "fx_painter = \<lparr>cur = \<lparr>ps_font = fx_font, ps_pen = QColor 0, ps_clipPath = None\<rparr>,
     saved = [], canvas = []\<rparr>"

definition fx_item :: "nat Anime" where
  "fx_item = \<lparr>episode_count = 12, score = 8, synopsis = ''A story.''\<rparr>"

definition fx_other_item :: "nat Anime" where
  "fx_other_item = \<lparr>episode_count = 24, score = 7, synopsis = ''Another story.''\<rparr>"

text \<open>Row 0 and row 1 hold an item record; beyond them \<^verbatim>\<open>getAnime\<close> has none to point to.\<close>

definition fx_model :: "nat SearchListModel" where
  "fx_model = \<lparr>getAnime = (\<lambda>r c. if r = 0 then Some fx_item
                                else if r = 1 then Some fx_other_item else None),
     displayText = (\<lambda>r c. if r = 1 then ''Frieren: Beyond Journeys End'' else ''Frieren'')\<rparr>"

definition fx_index :: "nat QModelIndex" where
  "fx_index = \<lparr>row = 0, column = 0, model = Some fx_model\<rparr>"

definition fx_other_index :: "nat QModelIndex" where
  "fx_other_index = \<lparr>row = 1, column = 0, model = Some fx_model\<rparr>"

definition fx_stale_index :: "nat QModelIndex" where
  "fx_stale_index = \<lparr>row = 2, column = 0, model = Some fx_model\<rparr>"

definition fx_view :: QListView where
  "fx_view = \<lparr>geometry = \<lparr>x1 = 0, y1 = 0, x2 = 799, y2 = 599\<rparr>\<rparr>"

definition fx_delegate :: SearchListItemDelegate where
  "fx_delegate = SearchListItemDelegate_ctor fx_toolkit (Some fx_view)"

text \<open>The default-constructed index, and a host view that has no width yet.\<close>

definition fx_null_index :: "nat QModelIndex" where
  "fx_null_index = \<lparr>row = - 1, column = - 1, model = None\<rparr>"

definition fx_empty_view :: QListView where
  "fx_empty_view = \<lparr>geometry = \<lparr>x1 = 0, y1 = 0, x2 = - 1, y2 = - 1\<rparr>\<rparr>"

definition fx_early_delegate :: SearchListItemDelegate where
  "fx_early_delegate = SearchListItemDelegate_ctor fx_toolkit (Some fx_empty_view)"

section \<open>Auxiliary facts\<close>

subsection \<open>Signed arithmetic without wrap-around\<close>

lemma sint_minus_no_overflow:
  fixes a b :: cint
  assumes "- (2^31) \<le> sint a - sint b" "sint a - sint b < 2^31"
  shows "sint (a - b) = sint a - sint b"
  using assms by (simp add: sint_word_ariths signed_take_bit_int_eq_self)

lemma sdiv_pos_bounds:
  fixes k l :: int
  assumes "0 < l"
  shows "min k 0 \<le> k sdiv l \<and> k sdiv l \<le> max k 0"
proof (cases "0 \<le> k")
  case True
  then have "k sdiv l = k div l"
    using assms by (cases "k = 0") (simp_all add: signed_divide_int_def)
  moreover have "0 \<le> k div l" "k div l \<le> k"
    using True assms by (simp_all add: pos_imp_zdiv_nonneg_iff int_div_less_self div_by_1 zdiv_mono2 [of k 1 l, simplified])
  ultimately show ?thesis using True by simp
next
  case False
  then have "k sdiv l = - ((- k) div l)"
    using assms by (simp add: signed_divide_int_def)
  moreover have "0 \<le> (- k) div l" "(- k) div l \<le> - k"
    using False assms by (simp_all add: pos_imp_zdiv_nonneg_iff zdiv_mono2 [of "- k" 1 l, simplified])
  ultimately show ?thesis using False by simp
qed

lemma sint_times_five:
  fixes h :: cint
  assumes "0 < sint h" "5 * sint h < 2^31"
  shows "sint (h * 5) = 5 * sint h"
  using assms by (simp add: sint_word_ariths signed_take_bit_int_eq_self)

lemma sint_qMin: "sint (qMin a b) = min (sint a) (sint b)"
  by (simp add: qMin_def word_sless_alt min_def)

lemma qMin_le_right:
  fixes h :: cint
  assumes "0 < sint h" "5 * sint h < 2^31"
  shows "sint (qMin a (h * 5)) \<le> 5 * sint h"
  using assms sint_times_five [OF assms]
  by (simp add: qMin_def word_sless_alt)

lemma lines_within_height:
  fixes r h :: int
  assumes "0 < h" "r \<le> 5 * h"
  shows "r div h \<le> 5"
proof -
  have "r div h \<le> (5 * h) div h"
    using assms by (intro zdiv_mono1) simp_all
  with assms show ?thesis by simp
qed

lemma sint_c_div:
  fixes a b :: cint
  assumes "0 < sint b"
  shows "sint (c_div a b) = sint a sdiv sint b"
proof -
  have "min (sint a) 0 \<le> sint a sdiv sint b \<and> sint a sdiv sint b \<le> max (sint a) 0"
    using assms by (rule sdiv_pos_bounds)
  moreover have "- (2^31) \<le> sint a" "sint a < 2^31"
    using sint_ge[of a] sint_lt[of a] by simp_all
  ultimately have "- (2^31) \<le> sint a sdiv sint b" "sint a sdiv sint b < 2^31"
    by (simp_all add: min_def max_def split: if_splits)
  then show ?thesis
    by (simp add: c_div_def sint_sbintrunc' signed_take_bit_int_eq_self)
qed

subsection \<open>Rectangles\<close>

lemma rect_width_setWidth: "rect_width (setWidth w r) = w"
  by (simp add: rect_width_def setWidth_def)

lemma rect_height_setHeight: "rect_height (setHeight h r) = h"
  by (simp add: rect_height_def setHeight_def)

lemma rect_height_setWidth: "rect_height (setWidth w r) = rect_height r"
  by (simp add: rect_height_def setWidth_def)

subsection \<open>Painter primitives\<close>

lemma canvas_prims:
  "canvas (setFont f p) = canvas p"
  "canvas (setPen c p) = canvas p"
  "canvas (setClipPath path p) = canvas p"
  "canvas (save p) = canvas p"
  "canvas (restore p) = canvas p"
  "canvas (fillRect r b p) = canvas p @ [FillRect r b]"
  "canvas (drawPixmap r pm p) = canvas p @ (case pm of None \<Rightarrow> [] | Some px \<Rightarrow> [DrawPixmap r px])"
  "canvas (drawText r fl s p) = canvas p @ [DrawText r fl s (ps_font (cur p)) (ps_pen (cur p))]"
  by (simp_all add: setFont_def setPen_def setClipPath_def save_def restore_def fillRect_def
      drawPixmap_def drawText_def split: list.splits option.splits)

lemma cur_prims:
  "cur (setFont f p) = (cur p)\<lparr>ps_font := f\<rparr>"
  "cur (setPen c p) = (cur p)\<lparr>ps_pen := c\<rparr>"
  "cur (setClipPath path p) = (cur p)\<lparr>ps_clipPath := Some path\<rparr>"
  "cur (save p) = cur p"
  "cur (fillRect r b p) = cur p"
  "cur (drawPixmap r pm p) = cur p"
  "cur (drawText r fl s p) = cur p"
  by (simp_all add: setFont_def setPen_def setClipPath_def save_def fillRect_def
      drawPixmap_def drawText_def split: option.splits)

lemma saved_prims:
  "saved (setFont f p) = saved p"
  "saved (setPen c p) = saved p"
  "saved (setClipPath path p) = saved p"
  "saved (save p) = cur p # saved p"
  "saved (fillRect r b p) = saved p"
  "saved (drawPixmap r pm p) = saved p"
  "saved (drawText r fl s p) = saved p"
  by (simp_all add: setFont_def setPen_def setClipPath_def save_def fillRect_def
      drawPixmap_def drawText_def split: option.splits)

lemma restore_pushed:
  "saved p = s # ss \<Longrightarrow> cur (restore p) = s \<and> saved (restore p) = ss"
  by (simp add: restore_def)

lemmas prims = canvas_prims cur_prims saved_prims painter_font_def

subsection \<open>The blocks\<close>

lemma paint_background_effect:
  "canvas (paint_background tk option opt rect painter) =
     canvas painter @
       [FillRect rect
          (if opt_state option AND State_Selected \<noteq> 0 then highlight (opt_palette opt)
           else if theme_isDark tk then mid (opt_palette opt)
           else alternateBase (opt_palette opt))]"
  "cur (paint_background tk option opt rect painter) = cur painter"
  "saved (paint_background tk option opt rect painter) = saved painter"
  by (simp_all add: paint_background_def prims)

lemma paint_poster_effect:
  "fst (paint_poster tk this opt rect painter) = adjust 140 0 0 0 rect"
  "canvas (snd (paint_poster tk this opt rect painter)) =
     canvas painter @
       [FillRect (setWidth 140 rect)
          (if theme_isDark tk then dark (opt_palette opt) else mid (opt_palette opt))] @
       (case m_pixmap this of None \<Rightarrow> [] | Some px \<Rightarrow> [DrawPixmap (setWidth 140 rect) px])"
  "cur (snd (paint_poster tk this opt rect painter)) = cur painter"
  "saved (snd (paint_poster tk this opt rect painter)) = saved painter"
  by (simp_all add: paint_poster_def prims Let_def)

lemma paint_title_effect:
  "fst (paint_title tk opt index rect painter) = adjust 8 32 (- 8) (- 8) rect"
  "canvas (snd (paint_title tk opt index rect painter)) =
     canvas painter @
       [FillRect (setHeight 24 rect) (dark (opt_palette opt)),
        DrawText (adjust 8 0 (- 8) 0 (setHeight 24 rect)) (AlignVCenter OR TextSingleLine)
          (fontMetrics_elidedText tk (setWeight DemiBold (ps_font (cur painter)))
             (index_displayText index) ElideRight
             (rect_width (adjust 8 0 (- 8) 0 (setHeight 24 rect))))
          (setWeight DemiBold (ps_font (cur painter))) (ps_pen (cur painter))]"
  "cur (snd (paint_title tk opt index rect painter)) =
     (cur painter)\<lparr>ps_font := setWeight DemiBold (ps_font (cur painter))\<rparr>"
  "saved (snd (paint_title tk opt index rect painter)) = saved painter"
  by (simp_all add: paint_title_def prims Let_def)

lemma paint_summary_effect:
  "fst (paint_summary tk item font rect painter) =
     adjust 0 (fontMetrics_height tk (ps_font (cur painter)) + 8) 0 0 rect"
  "canvas (snd (paint_summary tk item font rect painter)) =
     canvas painter @
       [DrawText (setHeight (fontMetrics_height tk (ps_font (cur painter))) rect)
          (AlignVCenter OR TextSingleLine)
          (QString_arg
             (QString_arg summary_format
                (int_text (episode_count item)) (locale_int_text tk (episode_count item)))
             (score_text tk (score item)) (locale_score_text tk (score item)))
          font (ps_pen (cur painter))]"
  "cur (snd (paint_summary tk item font rect painter)) = (cur painter)\<lparr>ps_font := font\<rparr>"
  "saved (snd (paint_summary tk item font rect painter)) = saved painter"
  by (simp_all add: paint_summary_def prims Let_def rect_height_setHeight)

lemma paint_details_effect:
  "fst (paint_details tk detailsFont rect painter) =
     adjust 0 (fontMetrics_height tk (setWeight DemiBold detailsFont) * 3 + 8) 0 0 rect"
  "fst (snd (paint_details tk detailsFont rect painter)) =
     setWeight Normal (setWeight DemiBold detailsFont)"
  "canvas (snd (snd (paint_details tk detailsFont rect painter))) =
     canvas painter @
       [DrawText
          (setWidth (rect_width (fontMetrics_boundingRect tk (setWeight DemiBold detailsFont) ''Studios:''))
             (setHeight (fontMetrics_height tk (setWeight DemiBold detailsFont) * 3) rect))
          0 details_titles (setWeight DemiBold detailsFont) (ps_pen (cur painter)),
        DrawText
          (adjust
             (rect_width (fontMetrics_boundingRect tk (setWeight DemiBold detailsFont) ''Studios:'') + 8)
             0 0 0
             (setHeight (fontMetrics_height tk (setWeight DemiBold detailsFont) * 3) rect))
          0 details_values (setWeight Normal (setWeight DemiBold detailsFont))
          (ps_pen (cur painter))]"
  "cur (snd (snd (paint_details tk detailsFont rect painter))) =
     (cur painter)\<lparr>ps_font := setWeight Normal (setWeight DemiBold detailsFont)\<rparr>"
  "saved (snd (snd (paint_details tk detailsFont rect painter))) = saved painter"
  by (simp_all add: paint_details_def prims Let_def rect_height_setHeight rect_width_setWidth
      rect_height_setWidth)

lemma paint_synopsis_effect:
  "canvas (paint_synopsis tk opt item detailsFont rect painter) =
     canvas painter @
       [DrawText
          (setHeight
             (qMin (rect_height rect) (fontMetrics_height tk (setPointSize 8 detailsFont) * 5)) rect)
          TextWordWrap (fromStdString tk (synopsis item)) (setPointSize 8 detailsFont)
          (brush_color (placeholderText (opt_palette opt)))]"
  "cur (paint_synopsis tk opt item detailsFont rect painter) =
     (cur painter)\<lparr>ps_pen := brush_color (placeholderText (opt_palette opt)),
                   ps_font := setPointSize 8 detailsFont\<rparr>"
  "saved (paint_synopsis tk opt item detailsFont rect painter) = saved painter"
  by (simp_all add: paint_synopsis_def prims Let_def)



lemmas block_effects = paint_background_effect paint_poster_effect paint_title_effect
  paint_summary_effect paint_details_effect paint_synopsis_effect

lemma paint_body_faults:
  "model index = None \<Longrightarrow> paint_body tk this painter option index = Inl NullPointer"
  "model index = Some m \<Longrightarrow> getAnime m (row index) (column index) = None \<Longrightarrow>
     paint_body tk this painter option index = Inl NullPointer"
  by (simp_all add: paint_body_def Let_def split_beta)

lemma paint_body_returns:
  assumes "model index = Some m" "getAnime m (row index) (column index) = Some item"
  shows "\<exists>q. paint_body tk this painter option index = Inr q"
  using assms by (simp add: paint_body_def Let_def split_beta)

lemma paint_body_effect:
  fixes tk :: "'s Toolkit"
  assumes m: "model index = Some m"
    and item: "getAnime m (row index) (column index) = Some item"
    and q: "paint_body tk this painter option index = Inr q"
  shows "saved q = saved painter"
    and "cur q =
      \<lparr>ps_font = setPointSize 8 (setWeight Normal (setWeight DemiBold (ps_font (cur painter)))),
       ps_pen = brush_color (placeholderText (opt_palette option)),
       ps_clipPath = Some [RoundedRect (opt_rect option) 4 4]\<rparr>"
    and "canvas q = canvas painter @ paint_operations tk this painter option index item"
proof -
  define cell where "cell = opt_rect option"
  define f0 where "f0 = ps_font (cur painter)"
  define fB where "fB = setWeight DemiBold f0"
  define fN where "fN = setWeight Normal fB"
  define R1 where "R1 = adjust 140 0 0 0 cell"
  define R2 where "R2 = adjust 8 32 (- 8) (- 8) R1"
  define R3 where "R3 = adjust 0 (fontMetrics_height tk fB + 8) 0 0 R2"
  define R4 where "R4 = adjust 0 (fontMetrics_height tk fB * 3 + 8) 0 0 R3"
  define p0 where "p0 = setClipPath [RoundedRect cell 4 4] painter"
  define p1 where "p1 = paint_background tk option option cell p0"
  define p2 where "p2 = snd (paint_poster tk this option cell p1)"
  define p3 where "p3 = snd (paint_title tk option index R1 p2)"
  define p4 where "p4 = snd (paint_summary tk item f0 R2 p3)"
  define d5 where "d5 = paint_details tk f0 R3 p4"
  have cur0: "cur p0 = (cur painter)\<lparr>ps_clipPath := Some [RoundedRect cell 4 4]\<rparr>"
    by (simp add: p0_def prims)
  have cur2: "cur p2 = cur p0"
    by (simp add: p2_def p1_def block_effects)
  have cur3: "cur p3 = (cur p0)\<lparr>ps_font := fB\<rparr>"
    by (simp add: p3_def block_effects cur2 cur0 fB_def f0_def)
  have cur4: "cur p4 = (cur p0)\<lparr>ps_font := f0\<rparr>"
    by (simp add: p4_def block_effects cur3)
  have q_eq: "q = paint_synopsis tk option item (fst (snd d5)) R4 (snd (snd d5))"
    using q m item
    by (simp add: paint_body_def Let_def split_beta addRoundedRect_def block_effects prims
        cell_def f0_def fB_def R1_def R2_def R3_def R4_def
        p0_def p1_def p2_def p3_def p4_def d5_def)
  have font5: "fst (snd d5) = fN"
    by (simp add: d5_def block_effects fN_def fB_def)
  have cur5: "cur (snd (snd d5)) = (cur p0)\<lparr>ps_font := fN\<rparr>"
    by (simp add: d5_def block_effects cur4 fN_def fB_def)
  have saved5: "saved (snd (snd d5)) = saved painter"
    by (simp add: d5_def p4_def p3_def p2_def p1_def p0_def block_effects prims)
  have canvas0: "canvas p0 = canvas painter"
    by (simp add: p0_def prims)
  have canvas2: "canvas p2 = canvas painter @
       [FillRect cell
          (if opt_state option AND State_Selected \<noteq> 0 then highlight (opt_palette option)
           else if theme_isDark tk then mid (opt_palette option)
           else alternateBase (opt_palette option)),
        FillRect (setWidth 140 cell)
          (if theme_isDark tk then dark (opt_palette option) else mid (opt_palette option))] @
       (case m_pixmap this of None \<Rightarrow> [] | Some px \<Rightarrow> [DrawPixmap (setWidth 140 cell) px])"
    by (simp add: p2_def p1_def block_effects canvas0)
  have canvas3: "canvas p3 = canvas p2 @
       [FillRect (setHeight 24 R1) (dark (opt_palette option)),
        DrawText (adjust 8 0 (- 8) 0 (setHeight 24 R1)) (AlignVCenter OR TextSingleLine)
          (fontMetrics_elidedText tk fB (index_displayText index) ElideRight
             (rect_width (adjust 8 0 (- 8) 0 (setHeight 24 R1))))
          fB (ps_pen (cur painter))]"
    by (simp add: p3_def block_effects cur2 cur0 fB_def f0_def)
  have canvas4: "canvas p4 = canvas p3 @
       [DrawText (setHeight (fontMetrics_height tk fB) R2) (AlignVCenter OR TextSingleLine)
          (QString_arg
             (QString_arg summary_format
                (int_text (episode_count item)) (locale_int_text tk (episode_count item)))
             (score_text tk (score item)) (locale_score_text tk (score item)))
          f0 (ps_pen (cur painter))]"
    by (simp add: p4_def block_effects cur3 cur0)
  have canvas5: "canvas (snd (snd d5)) = canvas p4 @
       [DrawText
          (setWidth (rect_width (fontMetrics_boundingRect tk fB ''Studios:''))
             (setHeight (fontMetrics_height tk fB * 3) R3))
          0 details_titles fB (ps_pen (cur painter)),
        DrawText
          (adjust (rect_width (fontMetrics_boundingRect tk fB ''Studios:'') + 8) 0 0 0
             (setHeight (fontMetrics_height tk fB * 3) R3))
          0 details_values fN (ps_pen (cur painter))]"
    by (simp add: d5_def block_effects cur4 cur0 fB_def fN_def)
  have canvas6: "canvas q = canvas (snd (snd d5)) @
       [DrawText (setHeight (qMin (rect_height R4) (fontMetrics_height tk (setPointSize 8 fN) * 5)) R4)
          TextWordWrap (fromStdString tk (synopsis item)) (setPointSize 8 fN)
          (brush_color (placeholderText (opt_palette option)))]"
    unfolding q_eq by (simp add: block_effects font5)
  show "saved q = saved painter"
    unfolding q_eq by (simp add: block_effects saved5)
  show "cur q =
      \<lparr>ps_font = setPointSize 8 (setWeight Normal (setWeight DemiBold (ps_font (cur painter)))),
       ps_pen = brush_color (placeholderText (opt_palette option)),
       ps_clipPath = Some [RoundedRect (opt_rect option) 4 4]\<rparr>"
    unfolding q_eq by (simp add: block_effects font5 cur5 cur0 fN_def fB_def f0_def cell_def)
  show "canvas q = canvas painter @ paint_operations tk this painter option index item"
    unfolding canvas6 canvas5 canvas4 canvas3 canvas2
    by (simp add: paint_operations_def Let_def cell_def f0_def fB_def fN_def
        R1_def R2_def R3_def R4_def cong: option.case_cong)
qed

lemma paint_operations_cur:
  assumes "cur p = cur q"
  shows "paint_operations tk this p option index item = paint_operations tk this q option index item"
  unfolding paint_operations_def by (simp only: assms)

lemma paint_effect:
  assumes "paint tk this p option index = Inr p'"
  shows "\<exists>m item. model index = Some m \<and> getAnime m (row index) (column index) = Some item \<and>
           cur p' = cur p \<and> saved p' = saved p \<and>
           painted p p' = paint_operations tk this p option index item"
proof -
  from assms obtain q where q: "paint_body tk this (PainterStateSaver_ctor p) option index = Inr q"
    and p': "p' = PainterStateSaver_dtor q"
    by (auto simp: paint_def split: sum.splits)
  from q obtain m where m: "model index = Some m"
    by (cases "model index") (simp_all add: paint_body_faults)
  from q m obtain item where item: "getAnime m (row index) (column index) = Some item"
    by (cases "getAnime m (row index) (column index)") (simp_all add: paint_body_faults)
  note eff = paint_body_effect [OF m item q]
  have saved_q: "saved q = cur p # saved p"
    using eff(1) by (simp add: PainterStateSaver_ctor_def prims)
  have "cur p' = cur p" "saved p' = saved p"
    using restore_pushed [OF saved_q] by (simp_all add: p' PainterStateSaver_dtor_def)
  moreover have "cur (PainterStateSaver_ctor p) = cur p"
    by (simp add: PainterStateSaver_ctor_def prims)
  then have "paint_operations tk this (PainterStateSaver_ctor p) option index item =
      paint_operations tk this p option index item"
    by (rule paint_operations_cur)
  with eff(3) have "canvas p' = canvas p @ paint_operations tk this p option index item"
    by (simp only: p' PainterStateSaver_dtor_def PainterStateSaver_ctor_def canvas_prims)
  then have "painted p p' = paint_operations tk this p option index item"
    by (simp add: painted_def)
  ultimately show ?thesis using m item by blast
qed

lemma paint_returns:
  assumes "model index = Some m" "getAnime m (row index) (column index) = Some item"
  shows "\<exists>p'. paint tk this p option index = Inr p'"
  using paint_body_returns [OF assms, of tk this "PainterStateSaver_ctor p" option]
  by (auto simp: paint_def)

lemma paint_faults:
  "model index = None \<Longrightarrow> paint tk this p option index = Inl NullPointer"
  "model index = Some m \<Longrightarrow> getAnime m (row index) (column index) = None \<Longrightarrow>
     paint tk this p option index = Inl NullPointer"
  by (simp_all add: paint_def paint_body_faults)

lemma nth_texts_paint_operations:
  "\<exists>r0 s0 r1 s1 r2 r3 r4 s4.
     texts (paint_operations tk this p option index item) =
       [DrawText r0 (AlignVCenter OR TextSingleLine) s0 (setWeight DemiBold (ps_font (cur p))) (ps_pen (cur p)),
        DrawText r1 (AlignVCenter OR TextSingleLine) s1 (ps_font (cur p)) (ps_pen (cur p)),
        DrawText r2 0 details_titles (setWeight DemiBold (ps_font (cur p))) (ps_pen (cur p)),
        DrawText r3 0 details_values (setWeight Normal (setWeight DemiBold (ps_font (cur p)))) (ps_pen (cur p)),
        DrawText r4 TextWordWrap s4
          (setPointSize 8 (setWeight Normal (setWeight DemiBold (ps_font (cur p)))))
          (brush_color (placeholderText (opt_palette option)))]"
  by (simp add: texts_def paint_operations_def Let_def split: option.splits)

lemma setPointSize_8: "setPointSize 8 f = f\<lparr>pointSize := 8\<rparr>"
  by (simp add: setPointSize_def word_sle_eq)

subsection \<open>The concrete cell\<close>

lemma fx_model_index:
  "model fx_index = Some fx_model" "getAnime fx_model (row fx_index) (column fx_index) = Some fx_item"
  "model fx_other_index = Some fx_model"
  "getAnime fx_model (row fx_other_index) (column fx_other_index) = Some fx_other_item"
  "model fx_stale_index = Some fx_model"
  "getAnime fx_model (row fx_stale_index) (column fx_stale_index) = None"
  "model fx_null_index = None"
  by (simp_all add: fx_index_def fx_other_index_def fx_stale_index_def fx_null_index_def fx_model_def)


subsection \<open>Place markers\<close>












section \<open>The size hint\<close>

text \<open>
  C2. For a host view of width \<open>W\<close>, \<^const>\<open>itemSize\<close> returns the height 210 and the
  width \<open>(W - 18 * (c + 2)) / c\<close>, computed on \<^verbatim>\<open>int\<close> with C++ division, where the column
  count \<open>c\<close> is 4 above 1440, 3 above 1080, 2 above 720 and 1 otherwise, hence between 1 and
  4. Read as integers, the width is the truncated quotient of \<open>W - 18 * (c + 2)\<close> by \<open>c\<close> for
  every \<open>W\<close> on which the subtraction does not wrap, so for every width that is not negative.
\<close>

theorem itemSize_columns_and_size:
  fixes W :: cint and c :: int
  assumes view: "parent this = Some view"
    and W: "rect_width (geometry view) = W"
    and c: "c = (if 1440 < sint W then 4 else if 1080 < sint W then 3
                 else if 720 < sint W then 2 else 1)"
  shows "\<exists>sz. itemSize this = Inr sz \<and> 1 \<le> c \<and> c \<le> 4 \<and>
              size_height sz = 210 \<and>
              size_width sz = c_div (W - 18 * (word_of_int c + 2)) (word_of_int c) \<and>
              (- (2^31) + 54 \<le> sint W \<longrightarrow>
                 sint (size_width sz) = (sint W - 18 * (c + 2)) sdiv c)"
proof -
  consider (one) "sint W \<le> 720" | (two) "720 < sint W" "sint W \<le> 1080"
    | (three) "1080 < sint W" "sint W \<le> 1440" | (four) "1440 < sint W"
    by linarith
  then show ?thesis
  proof cases
    case one
    have "- (2^31) + 54 \<le> sint W \<longrightarrow> sint (W - 54) = sint W - 54"
      using sint_lt[of W] by (simp add: sint_minus_no_overflow)
    with one show ?thesis
      using view W c by (simp add: itemSize_def word_sless_alt sint_c_div)
  next
    case two
    have "sint (W - 72) = sint W - 72"
      using two sint_lt[of W] by (simp add: sint_minus_no_overflow)
    with two show ?thesis
      using view W c by (simp add: itemSize_def word_sless_alt sint_c_div)
  next
    case three
    have "sint (W - 90) = sint W - 90"
      using three sint_lt[of W] by (simp add: sint_minus_no_overflow)
    with three show ?thesis
      using view W c by (simp add: itemSize_def word_sless_alt sint_c_div)
  next
    case four
    have "sint (W - 108) = sint W - 108"
      using four sint_lt[of W] by (simp add: sint_minus_no_overflow)
    with four show ?thesis
      using view W c by (simp add: itemSize_def word_sless_alt sint_c_div)
  qed
qed

theorem itemSize_columns_and_size_witness:
  "parent fx_delegate = Some fx_view \<and> rect_width (geometry fx_view) = 800 \<and>
   - (2^31) + 54 \<le> sint (800 :: cint) \<and>
   (\<exists>sz. itemSize fx_delegate = Inr sz \<and> size_height sz = 210 \<and>
         sint (size_width sz) = 364)"
proof -
  have h1: "parent fx_delegate = Some fx_view"
    by (simp add: fx_delegate_def SearchListItemDelegate_ctor_def Let_def)
  have h2: "rect_width (geometry fx_view) = 800"
    by (simp add: fx_view_def rect_width_def)
  have h3: "- (2^31) + 54 \<le> sint (800 :: cint)"
    by simp
  have h4: "(2 :: int) = (if 1440 < sint (800 :: cint) then 4 else if 1080 < sint (800 :: cint) then 3
                 else if 720 < sint (800 :: cint) then 2 else 1)"
    by simp
  from itemSize_columns_and_size [OF h1 h2 h4] h1 h2 h3 show ?thesis
    by (auto simp: signed_divide_int_def)
qed

text \<open>
  C8. For an index that is not valid \<^const>\<open>sizeHint\<close> returns the base class's size
  hint, whether or not the delegate has a parent view; for a valid index it returns what
  \<^const>\<open>itemSize\<close> computes, which for a delegate with a parent view is a size of height 210.
\<close>

theorem sizeHint_valid_or_default:
  "(\<not> isValid index \<longrightarrow>
      sizeHint tk this option index = Inr (QStyledItemDelegate_sizeHint tk option index)) \<and>
   (isValid index \<longrightarrow>
      sizeHint tk this option index = itemSize this \<and>
      (\<forall>view. parent this = Some view \<longrightarrow>
         (\<exists>sz. sizeHint tk this option index = Inr sz \<and> size_height sz = 210)))"
proof (intro conjI impI allI)
  assume "\<not> isValid index"
  then show "sizeHint tk this option index = Inr (QStyledItemDelegate_sizeHint tk option index)"
    by (simp add: sizeHint_def)
next
  assume "isValid index"
  then show "sizeHint tk this option index = itemSize this"
    by (simp add: sizeHint_def)
next
  fix view
  assume "isValid index" and "parent this = Some view"
  then show "\<exists>sz. sizeHint tk this option index = Inr sz \<and> size_height sz = 210"
    by (simp add: sizeHint_def itemSize_def Let_def)
qed

theorem sizeHint_valid_or_default_witness:
  "\<not> isValid fx_null_index \<and>
   sizeHint fx_toolkit fx_delegate fx_option fx_null_index =
     Inr (QStyledItemDelegate_sizeHint fx_toolkit fx_option fx_null_index) \<and>
   isValid fx_index \<and>
   sizeHint fx_toolkit fx_delegate fx_option fx_index = Inr \<lparr>size_width = 364, size_height = 210\<rparr>"
proof -
  have invalid: "\<not> isValid fx_null_index"
    by (simp add: isValid_def fx_null_index_def)
  have valid: "isValid fx_index"
    by (simp add: isValid_def fx_index_def)
  have size: "itemSize fx_delegate = Inr \<lparr>size_width = 364, size_height = 210\<rparr>"
    by (simp add: itemSize_def fx_delegate_def SearchListItemDelegate_ctor_def fx_view_def
        Let_def rect_width_def c_div_def signed_divide_int_def)
  from sizeHint_valid_or_default [of fx_null_index fx_toolkit fx_delegate fx_option]
    sizeHint_valid_or_default [of fx_index fx_toolkit fx_delegate fx_option]
    invalid valid size
  show ?thesis by simp
qed

text \<open>
  C9. Where the host view's width \<open>W\<close> is at most \<open>18 * (columns + 2)\<close>, the column count
  is 1, so \<open>W\<close> is at most 54, and the width of the size hint is \<open>W - 54\<close>: zero or
  negative, and \<open>-54\<close> for a view of width 0. (As in C2, for the widths on which the
  subtraction does not wrap.)
\<close>

theorem itemSize_width_not_positive:
  fixes W :: cint and c :: int
  assumes view: "parent this = Some view"
    and W: "rect_width (geometry view) = W"
    and no_wrap: "- (2^31) + 54 \<le> sint W"
    and c: "c = (if 1440 < sint W then 4 else if 1080 < sint W then 3
                 else if 720 < sint W then 2 else 1)"
    and narrow: "sint W \<le> 18 * (c + 2)"
  shows "\<exists>sz. itemSize this = Inr sz \<and> c = 1 \<and>
              sint (size_width sz) = sint W - 54 \<and> sint (size_width sz) \<le> 0"
proof -
  from c narrow have c1: "c = 1" and le: "sint W \<le> 54"
    by (simp_all split: if_splits)
  have "sint (W - 54) = sint W - 54"
    using no_wrap sint_lt[of W] by (simp add: sint_minus_no_overflow)
  with le c1 show ?thesis
    using view W by (simp add: itemSize_def word_sless_alt sint_c_div)
qed

theorem itemSize_width_not_positive_witness:
  "parent fx_early_delegate = Some fx_empty_view \<and> rect_width (geometry fx_empty_view) = 0 \<and>
   sint (0 :: cint) \<le> 18 * (1 + 2) \<and>
   (\<exists>sz. itemSize fx_early_delegate = Inr sz \<and> sint (size_width sz) = - 54)"
proof -
  have h1: "parent fx_early_delegate = Some fx_empty_view"
    by (simp add: fx_early_delegate_def SearchListItemDelegate_ctor_def Let_def)
  have h2: "rect_width (geometry fx_empty_view) = 0"
    by (simp add: fx_empty_view_def rect_width_def)
  have h3: "- (2^31) + 54 \<le> sint (0 :: cint)"
    by simp
  have h4: "(1 :: int) = (if 1440 < sint (0 :: cint) then 4 else if 1080 < sint (0 :: cint) then 3
                 else if 720 < sint (0 :: cint) then 2 else 1)"
    by simp
  have h5: "sint (0 :: cint) \<le> 18 * ((1 :: int) + 2)"
    by simp
  from itemSize_width_not_positive [OF h1 h2 h3 h4 h5] h1 h2 show ?thesis
    by auto
qed

section \<open>What a paint call draws\<close>

text \<open>
  C1, as amended. The constructor cannot fail: where the poster image cannot be read the
  pixmap stays null, and a paint call with a null pixmap draws no pixmap, so that the poster
  region shows its background fill only. A paint call returns when the index has a model and
  the model has an item record for it. Where the model pointer or the item pointer is null,
  it is dereferenced all the same and the call faults: \<^const>\<open>paint\<close> has no check for
  either. The claim as stated, that a null model or a null item record gives an empty region
  and no fault, fails on the default-constructed index and on an index whose row the model
  has no record for.
\<close>

theorem paint_faults_without_item_record:
  "(imageReader_read tk ''./data/poster.jpg'' = None \<longrightarrow>
      m_pixmap (SearchListItemDelegate_ctor tk view) = None) \<and>
   (m_pixmap this = None \<and> paint tk this p option index = Inr p' \<longrightarrow>
      filter is_pixmap (painted p p') = [] \<and>
      painted p p' ! 1 =
        FillRect (setWidth 140 (opt_rect option))
          (if theme_isDark tk then dark (opt_palette option) else mid (opt_palette option))) \<and>
   ((\<exists>m item. model index = Some m \<and> getAnime m (row index) (column index) = Some item) \<longrightarrow>
      (\<exists>q. paint tk this p option index = Inr q)) \<and>
   (\<not> (\<exists>m item. model index = Some m \<and> getAnime m (row index) (column index) = Some item) \<longrightarrow>
      paint tk this p option index = Inl NullPointer)"
proof (intro conjI impI)
  assume "imageReader_read tk ''./data/poster.jpg'' = None"
  then show "m_pixmap (SearchListItemDelegate_ctor tk view) = None"
    by (simp add: SearchListItemDelegate_ctor_def Let_def)
next
  assume a: "m_pixmap this = None \<and> paint tk this p option index = Inr p'"
  then obtain m item where ops: "painted p p' = paint_operations tk this p option index item"
    using paint_effect by blast
  from a show "filter is_pixmap (painted p p') = []"
    unfolding ops by (simp add: paint_operations_def Let_def)
  from a show "painted p p' ! 1 =
        FillRect (setWidth 140 (opt_rect option))
          (if theme_isDark tk then dark (opt_palette option) else mid (opt_palette option))"
    unfolding ops by (simp add: paint_operations_def Let_def)
next
  assume "\<exists>m item. model index = Some m \<and> getAnime m (row index) (column index) = Some item"
  then show "\<exists>q. paint tk this p option index = Inr q"
    using paint_returns by blast
next
  assume none: "\<not> (\<exists>m item. model index = Some m \<and> getAnime m (row index) (column index) = Some item)"
  show "paint tk this p option index = Inl NullPointer"
  proof (cases "model index")
    case None
    then show ?thesis by (rule paint_faults(1))
  next
    case (Some m)
    with none have "getAnime m (row index) (column index) = None"
      by (cases "getAnime m (row index) (column index)") simp_all
    with Some show ?thesis by (rule paint_faults(2))
  qed
qed

theorem paint_faults_without_item_record_witness:
  "imageReader_read fx_toolkit ''./data/poster.jpg'' = None \<and>
   m_pixmap fx_delegate = None \<and>
   (\<exists>m item. model fx_index = Some m \<and> getAnime m (row fx_index) (column fx_index) = Some item) \<and>
   (\<exists>p'. paint fx_toolkit fx_delegate fx_painter fx_option fx_index = Inr p' \<and>
      filter is_pixmap (painted fx_painter p') = []) \<and>
   \<not> (\<exists>m item. model fx_stale_index = Some m \<and>
         getAnime m (row fx_stale_index) (column fx_stale_index) = Some item) \<and>
   paint fx_toolkit fx_delegate fx_painter fx_option fx_stale_index = Inl NullPointer"
proof -
  have unread: "imageReader_read fx_toolkit ''./data/poster.jpg'' = None"
    by (simp add: fx_toolkit_def)
  have some: "\<exists>m item. model fx_index = Some m \<and> getAnime m (row fx_index) (column fx_index) = Some item"
    using fx_model_index(1,2) by blast
  have none: "\<not> (\<exists>m item. model fx_stale_index = Some m \<and>
         getAnime m (row fx_stale_index) (column fx_stale_index) = Some item)"
    using fx_model_index(5,6) by simp
  note inst = paint_faults_without_item_record
  from inst [where tk = fx_toolkit and view = "Some fx_view"] unread have empty: "m_pixmap fx_delegate = None"
    by (simp add: fx_delegate_def)
  from inst [where tk = fx_toolkit and this = fx_delegate and p = fx_painter
      and option = fx_option and index = fx_index] some
  obtain p' where one: "paint fx_toolkit fx_delegate fx_painter fx_option fx_index = Inr p'"
    by blast
  from inst [where tk = fx_toolkit and this = fx_delegate and p = fx_painter
      and option = fx_option and index = fx_index and p' = p'] empty one
  have "filter is_pixmap (painted fx_painter p') = []"
    by blast
  moreover from inst [where tk = fx_toolkit and this = fx_delegate and p = fx_painter
      and option = fx_option and index = fx_stale_index] none
  have "paint fx_toolkit fx_delegate fx_painter fx_option fx_stale_index = Inl NullPointer"
    by blast
  ultimately show ?thesis
    using unread empty some one none by blast
qed

theorem paint_null_pointer_counterexample:
  "paint fx_toolkit fx_delegate fx_painter fx_option fx_null_index = Inl NullPointer \<and>
   paint fx_toolkit fx_delegate fx_painter fx_option fx_stale_index = Inl NullPointer"
  using paint_faults(1) [OF fx_model_index(7)] paint_faults(2) [OF fx_model_index(5,6)]
  by simp

text \<open>
  C3. The text of the value column of the details block is the constant
  \<^const>\<open>details_values\<close>, whose three lines are "Jan 7, 2024 to Mar 31, 2024 (Airing)",
  "Action, Adventure, Fantasy" and "A-1 Pictures", whatever the toolkit, the delegate, the
  painter, the style option, the index and the item record: any two paint calls that return
  have drawn the same text there.
\<close>

theorem details_values_are_constant:
  assumes "paint tk this p option index = Inr p'"
    and "paint tk' this' q option' index' = Inr q'"
  shows "\<exists>r f c r' f' c'.
           texts (painted p p') ! 3 = DrawText r 0 details_values f c \<and>
           texts (painted q q') ! 3 = DrawText r' 0 details_values f' c' \<and>
           text_lines details_values =
             [''Jan 7, 2024 to Mar 31, 2024 (Airing)'', ''Action, Adventure, Fantasy'',
              ''A-1 Pictures'']"
proof -
  from paint_effect [OF assms(1)] obtain m item
    where "painted p p' = paint_operations tk this p option index item"
    by blast
  moreover from paint_effect [OF assms(2)] obtain m' item'
    where "painted q q' = paint_operations tk' this' q option' index' item'"
    by blast
  moreover have "text_lines details_values =
      [''Jan 7, 2024 to Mar 31, 2024 (Airing)'', ''Action, Adventure, Fantasy'', ''A-1 Pictures'']"
    by (simp add: details_values_def newline_def)
  ultimately show ?thesis
    using nth_texts_paint_operations [of tk this p option index item]
      nth_texts_paint_operations [of tk' this' q option' index' item']
    by auto
qed

theorem details_values_are_constant_witness:
  "\<exists>p' q'. paint fx_toolkit fx_delegate fx_painter fx_option fx_index = Inr p' \<and>
      paint fx_toolkit fx_delegate fx_painter fx_option fx_other_index = Inr q' \<and>
      getAnime fx_model (row fx_index) (column fx_index) = Some fx_item \<and>
      getAnime fx_model (row fx_other_index) (column fx_other_index) = Some fx_other_item \<and>
      fx_item \<noteq> fx_other_item \<and>
      op_text (texts (painted fx_painter p') ! 3) = details_values \<and>
      op_text (texts (painted fx_painter q') ! 3) = details_values"
proof -
  obtain p' where one: "paint fx_toolkit fx_delegate fx_painter fx_option fx_index = Inr p'"
    using paint_returns [OF fx_model_index(1,2)] by blast
  obtain q' where two: "paint fx_toolkit fx_delegate fx_painter fx_option fx_other_index = Inr q'"
    using paint_returns [OF fx_model_index(3,4)] by blast
  have "fx_item \<noteq> fx_other_item"
    by (simp add: fx_item_def fx_other_item_def)
  with details_values_are_constant [OF one two] one two fx_model_index(2,4) show ?thesis
    by auto
qed

text \<open>
  C4, as amended. The details block draws the labels "Aired:", "Genres:", "Studios:" in
  the demi-bold font into a rectangle as wide as the bounding rectangle of "Studios:" in
  that font, and the values into a rectangle that starts 8 pixels right of it; both are
  three font heights tall. The label column is as wide as the widest label where the font
  makes no label wider than "Studios:". The claim as stated, that the column always has the
  width of the widest label, fails for a font in which "Genres:" is wider than "Studios:".
\<close>

theorem details_label_and_value_columns:
  assumes "paint tk this p option index = Inr p'"
  shows "let labels = texts (painted p p') ! 2;
             vals = texts (painted p p') ! 3;
             f = setWeight DemiBold (ps_font (cur p));
             label_width = (\<lambda>l. rect_width (fontMetrics_boundingRect tk f l))
         in is_text labels \<and> op_text labels = details_titles \<and>
            text_lines details_titles = [''Aired:'', ''Genres:'', ''Studios:''] \<and>
            op_font labels = f \<and>
            is_text vals \<and> op_text vals = details_values \<and>
            rect_width (op_rect labels) = label_width ''Studios:'' \<and>
            x1 (op_rect vals) = x1 (op_rect labels) + rect_width (op_rect labels) + 8 \<and>
            y1 (op_rect vals) = y1 (op_rect labels) \<and>
            rect_height (op_rect labels) = fontMetrics_height tk f * 3 \<and>
            rect_height (op_rect vals) = fontMetrics_height tk f * 3 \<and>
            (label_width ''Aired:'' \<le>s label_width ''Studios:'' \<and>
             label_width ''Genres:'' \<le>s label_width ''Studios:''
             \<longrightarrow> (\<forall>l \<in> set (text_lines details_titles).
                    label_width l \<le>s rect_width (op_rect labels)))"
proof -
  from paint_effect [OF assms] obtain m item
    where ops: "painted p p' = paint_operations tk this p option index item"
    by blast
  define f where "f = setWeight DemiBold (ps_font (cur p))"
  define hB where "hB = fontMetrics_height tk f"
  define w where "w = rect_width (fontMetrics_boundingRect tk f ''Studios:'')"
  define R3 where "R3 = adjust 0 (hB + 8) 0 0
      (adjust 8 32 (- 8) (- 8) (adjust 140 0 0 0 (opt_rect option)))"
  have labels: "texts (painted p p') ! 2 =
      DrawText (setWidth w (setHeight (hB * 3) R3)) 0 details_titles f (ps_pen (cur p))"
    unfolding ops
    by (simp add: texts_def paint_operations_def Let_def R3_def hB_def f_def w_def
        split: option.splits)
  have vals: "texts (painted p p') ! 3 =
      DrawText (adjust (w + 8) 0 0 0 (setHeight (hB * 3) R3)) 0 details_values
        (setWeight Normal f) (ps_pen (cur p))"
    unfolding ops
    by (simp add: texts_def paint_operations_def Let_def R3_def hB_def f_def w_def
        split: option.splits)
  have lines: "text_lines details_titles = [''Aired:'', ''Genres:'', ''Studios:'']"
    by (simp add: details_titles_def newline_def)
  have geo: "rect_width (setWidth w (setHeight (hB * 3) R3)) = w"
    "rect_height (setWidth w (setHeight (hB * 3) R3)) = hB * 3"
    "rect_height (adjust (w + 8) 0 0 0 (setHeight (hB * 3) R3)) = hB * 3"
    "x1 (adjust (w + 8) 0 0 0 (setHeight (hB * 3) R3)) =
       x1 (setWidth w (setHeight (hB * 3) R3)) + w + 8"
    "y1 (adjust (w + 8) 0 0 0 (setHeight (hB * 3) R3)) = y1 (setWidth w (setHeight (hB * 3) R3))"
    by (simp_all add: rect_width_def rect_height_def setWidth_def setHeight_def adjust_def)
  show ?thesis
    unfolding Let_def labels vals lines f_def [symmetric]
    using geo by (simp add: w_def [symmetric] hB_def [symmetric])
qed

theorem details_label_and_value_columns_witness:
  "\<exists>p'. paint fx_toolkit fx_delegate fx_painter fx_option fx_index = Inr p' \<and>
      rect_width (fontMetrics_boundingRect fx_toolkit (setWeight DemiBold fx_font) ''Aired:'') \<le>s
        rect_width (fontMetrics_boundingRect fx_toolkit (setWeight DemiBold fx_font) ''Studios:'') \<and>
      rect_width (fontMetrics_boundingRect fx_toolkit (setWeight DemiBold fx_font) ''Genres:'') \<le>s
        rect_width (fontMetrics_boundingRect fx_toolkit (setWeight DemiBold fx_font) ''Studios:'') \<and>
      rect_width (op_rect (texts (painted fx_painter p') ! 2)) = 56 \<and>
      x1 (op_rect (texts (painted fx_painter p') ! 3)) =
        x1 (op_rect (texts (painted fx_painter p') ! 2)) + 64 \<and>
      rect_height (op_rect (texts (painted fx_painter p') ! 2)) = 54 \<and>
      rect_height (op_rect (texts (painted fx_painter p') ! 3)) = 54"
proof -
  obtain p' where one: "paint fx_toolkit fx_delegate fx_painter fx_option fx_index = Inr p'"
    using paint_returns [OF fx_model_index(1,2)] by blast
  have font: "ps_font (cur fx_painter) = fx_font"
    by (simp add: fx_painter_def)
  have widths:
    "rect_width (fontMetrics_boundingRect fx_toolkit (setWeight DemiBold fx_font) ''Aired:'') = 42"
    "rect_width (fontMetrics_boundingRect fx_toolkit (setWeight DemiBold fx_font) ''Genres:'') = 49"
    "rect_width (fontMetrics_boundingRect fx_toolkit (setWeight DemiBold fx_font) ''Studios:'') = 56"
    by (simp_all add: fx_toolkit_def fx_advance_def rect_width_def)
  have height: "fontMetrics_height fx_toolkit (setWeight DemiBold fx_font) = 18"
    by (simp add: fx_toolkit_def fx_font_def setWeight_def)
  from details_label_and_value_columns [OF one, unfolded Let_def font widths height] one widths
  show ?thesis
    by (simp add: word_sle_eq)
qed

theorem label_column_narrower_than_a_label_counterexample:
  "\<not> isl (paint fx_wide_toolkit fx_delegate fx_painter fx_option fx_index) \<and>
   op_text (texts (painted fx_painter
      (projr (paint fx_wide_toolkit fx_delegate fx_painter fx_option fx_index))) ! 2) = details_titles \<and>
   rect_width (op_rect (texts (painted fx_painter
      (projr (paint fx_wide_toolkit fx_delegate fx_painter fx_option fx_index))) ! 2)) = 40 \<and>
   rect_width (fontMetrics_boundingRect fx_wide_toolkit (setWeight DemiBold fx_font) ''Aired:'') = 38 \<and>
   rect_width (fontMetrics_boundingRect fx_wide_toolkit (setWeight DemiBold fx_font) ''Genres:'') = 55 \<and>
   rect_width (fontMetrics_boundingRect fx_wide_toolkit (setWeight DemiBold fx_font) ''Studios:'') = 40"
proof -
  obtain p' where one: "paint fx_wide_toolkit fx_delegate fx_painter fx_option fx_index = Inr p'"
    using paint_returns [OF fx_model_index(1,2)] by blast
  from paint_effect [OF one] obtain m item
    where ops: "painted fx_painter p' =
        paint_operations fx_wide_toolkit fx_delegate fx_painter fx_option fx_index item"
    by blast
  have widths:
    "rect_width (fontMetrics_boundingRect fx_wide_toolkit (setWeight DemiBold fx_font) ''Aired:'') = 38"
    "rect_width (fontMetrics_boundingRect fx_wide_toolkit (setWeight DemiBold fx_font) ''Genres:'') = 55"
    "rect_width (fontMetrics_boundingRect fx_wide_toolkit (setWeight DemiBold fx_font) ''Studios:'') = 40"
    by (simp_all add: fx_wide_toolkit_def fx_wide_advance_def rect_width_def)
  have "op_text (texts (painted fx_painter p') ! 2) = details_titles"
    "rect_width (op_rect (texts (painted fx_painter p') ! 2)) = 40"
    unfolding ops
    by (simp_all add: texts_def paint_operations_def Let_def fx_painter_def widths
        rect_width_setWidth split: option.splits)
  with one widths show ?thesis
    by simp
qed




text \<open>
  C6. The last text of a paint call is the synopsis, word-wrapped, in the 8 point font at
  normal weight, with the palette's placeholder-text colour as pen. Its rectangle starts
  where the rest of the cell starts, and its height, read as an integer, is the minimum of
  the height that is left of the cell (the cell's height less 56 pixels and four heights of
  the demi-bold font) and of five heights \<open>h\<close> of the 8 point font as \<^verbatim>\<open>int\<close>. Where
  \<open>5 * h\<close> does not wrap, it is the minimum of the height that is left and \<open>5 * h\<close>: at
  most either, so that no more than five lines of height \<open>h\<close> fit into it.
\<close>

theorem synopsis_clipped_to_five_lines:
  assumes "paint tk this p option index = Inr p'"
  shows "\<exists>m item.
           model index = Some m \<and> getAnime m (row index) (column index) = Some item \<and>
           (let syn = texts (painted p p') ! 4;
                h = fontMetrics_height tk (op_font syn);
                hB = fontMetrics_height tk (setWeight DemiBold (ps_font (cur p)));
                rest = rect_height (opt_rect option) - 56 - 4 * hB
            in is_text syn \<and> op_flags syn = TextWordWrap \<and>
               op_text syn = fromStdString tk (synopsis item) \<and>
               pointSize (op_font syn) = 8 \<and> weight (op_font syn) = Normal \<and>
               op_pen syn = brush_color (placeholderText (opt_palette option)) \<and>
               x1 (op_rect syn) = x1 (opt_rect option) + 148 \<and>
               x2 (op_rect syn) = x2 (opt_rect option) - 8 \<and>
               y1 (op_rect syn) = y1 (opt_rect option) + 48 + 4 * hB \<and>
               rect_height (op_rect syn) = qMin rest (h * 5) \<and>
               sint (rect_height (op_rect syn)) = min (sint rest) (sint (h * 5)) \<and>
               (0 < sint h \<and> 5 * sint h < 2^31 \<longrightarrow>
                  sint (rect_height (op_rect syn)) = min (sint rest) (5 * sint h) \<and>
                  sint (rect_height (op_rect syn)) \<le> sint rest \<and>
                  sint (rect_height (op_rect syn)) \<le> 5 * sint h \<and>
                  sint (rect_height (op_rect syn)) div sint h \<le> 5))"
proof -
  from paint_effect [OF assms] obtain m item
    where m: "model index = Some m" "getAnime m (row index) (column index) = Some item"
      and ops: "painted p p' = paint_operations tk this p option index item"
    by blast
  define hB where "hB = fontMetrics_height tk (setWeight DemiBold (ps_font (cur p)))"
  define f8 where "f8 = setPointSize 8 (setWeight Normal (setWeight DemiBold (ps_font (cur p))))"
  define R4 where "R4 = adjust 0 (hB * 3 + 8) 0 0 (adjust 0 (hB + 8) 0 0
      (adjust 8 32 (- 8) (- 8) (adjust 140 0 0 0 (opt_rect option))))"
  define h where "h = fontMetrics_height tk f8"
  define rest where "rest = rect_height (opt_rect option) - 56 - 4 * hB"
  define r where "r = setHeight (qMin (rect_height R4) (h * 5)) R4"
  have drawn: "texts (painted p p') ! 4 =
      DrawText r TextWordWrap
        (fromStdString tk (synopsis item)) f8 (brush_color (placeholderText (opt_palette option)))"
    unfolding ops
    by (simp add: texts_def paint_operations_def Let_def R4_def hB_def f8_def h_def r_def
        split: option.splits)
  have f8: "pointSize f8 = 8" "weight f8 = Normal"
    by (simp_all add: f8_def setPointSize_8 setWeight_def)
  have left: "rect_height R4 = rest"
    by (simp add: R4_def rest_def rect_height_def adjust_def)
  have place: "x1 r = x1 (opt_rect option) + 148" "x2 r = x2 (opt_rect option) - 8"
    "y1 r = y1 (opt_rect option) + 48 + 4 * hB"
    by (simp_all add: r_def R4_def setHeight_def adjust_def)
  have height: "rect_height r = qMin rest (h * 5)"
    by (simp add: r_def rect_height_setHeight left)
  then have reading: "sint (rect_height r) = min (sint rest) (sint (h * 5))"
    by (simp add: sint_qMin)
  have bound: "sint (rect_height r) = min (sint rest) (5 * sint h) \<and>
      sint (rect_height r) \<le> sint rest \<and> sint (rect_height r) \<le> 5 * sint h \<and>
      sint (rect_height r) div sint h \<le> 5"
    if "0 < sint h" "5 * sint h < 2^31"
  proof -
    from reading sint_times_five [OF that]
    have eq: "sint (rect_height r) = min (sint rest) (5 * sint h)"
      by simp
    then have "sint (rect_height r) \<le> sint rest" "sint (rect_height r) \<le> 5 * sint h"
      by simp_all
    with eq lines_within_height [OF that(1)] show ?thesis
      by blast
  qed
  then have bounded: "0 < sint h \<and> 5 * sint h < 2^31 \<longrightarrow>
      sint (rect_height r) = min (sint rest) (5 * sint h) \<and>
      sint (rect_height r) \<le> sint rest \<and> sint (rect_height r) \<le> 5 * sint h \<and>
      sint (rect_height r) div sint h \<le> 5"
    by blast
  have a_text: "is_text (DrawText r TextWordWrap (fromStdString tk (synopsis item)) f8
      (brush_color (placeholderText (opt_palette option))))"
    by simp
  show ?thesis
    unfolding Let_def drawn draw_op.sel
      hB_def [symmetric] rest_def [symmetric] h_def [symmetric]
    using m f8 place height reading bounded a_text by blast
qed

theorem synopsis_clipped_to_five_lines_witness:
  "\<exists>p' q'. paint fx_toolkit fx_delegate fx_painter fx_option fx_index = Inr p' \<and>
      paint fx_toolkit fx_delegate fx_painter fx_short_option fx_index = Inr q' \<and>
      op_text (texts (painted fx_painter p') ! 4) = ''A story.'' \<and>
      fontMetrics_height fx_toolkit (op_font (texts (painted fx_painter p') ! 4)) = 16 \<and>
      fontMetrics_height fx_toolkit (op_font (texts (painted fx_painter q') ! 4)) = 16 \<and>
      0 < sint (16 :: cint) \<and> 5 * sint (16 :: cint) < 2^31 \<and>
      rect_height (opt_rect fx_option) - 56 - 4 * 18 = 82 \<and>
      sint (rect_height (op_rect (texts (painted fx_painter p') ! 4))) = 80 \<and>
      rect_height (opt_rect fx_short_option) - 56 - 4 * 18 = 22 \<and>
      sint (rect_height (op_rect (texts (painted fx_painter q') ! 4))) = 22"
proof -
  obtain p' where one: "paint fx_toolkit fx_delegate fx_painter fx_option fx_index = Inr p'"
    using paint_returns [OF fx_model_index(1,2)] by blast
  obtain q' where two: "paint fx_toolkit fx_delegate fx_painter fx_short_option fx_index = Inr q'"
    using paint_returns [OF fx_model_index(1,2)] by blast
  let ?syn = "texts (painted fx_painter p') ! 4"
  let ?syn' = "texts (painted fx_painter q') ! 4"
  have hB: "fontMetrics_height fx_toolkit (setWeight DemiBold (ps_font (cur fx_painter))) = 18"
    by (simp add: fx_toolkit_def fx_painter_def fx_font_def setWeight_def)
  have tall: "rect_height (opt_rect fx_option) - 56 - 4 * 18 = 82"
    by (simp add: fx_option_def rect_height_def)
  have short: "rect_height (opt_rect fx_short_option) - 56 - 4 * 18 = 22"
    by (simp add: fx_short_option_def fx_option_def rect_height_def)
  from synopsis_clipped_to_five_lines [OF one] obtain m item
    where mi: "model fx_index = Some m" "getAnime m (row fx_index) (column fx_index) = Some item"
      and body: "op_text ?syn = fromStdString fx_toolkit (synopsis item)"
        "pointSize (op_font ?syn) = 8"
        "sint (rect_height (op_rect ?syn)) =
           min (sint (rect_height (opt_rect fx_option) - 56 -
                 4 * fontMetrics_height fx_toolkit (setWeight DemiBold (ps_font (cur fx_painter)))))
             (sint (fontMetrics_height fx_toolkit (op_font ?syn) * 5))"
    unfolding Let_def by blast
  from synopsis_clipped_to_five_lines [OF two]
  have body': "pointSize (op_font ?syn') = 8"
        "sint (rect_height (op_rect ?syn')) =
           min (sint (rect_height (opt_rect fx_short_option) - 56 -
                 4 * fontMetrics_height fx_toolkit (setWeight DemiBold (ps_font (cur fx_painter)))))
             (sint (fontMetrics_height fx_toolkit (op_font ?syn') * 5))"
    unfolding Let_def by blast+
  from mi fx_model_index(1,2) have item: "item = fx_item"
    by simp
  have h: "fontMetrics_height fx_toolkit (op_font ?syn) = 16"
    using body(2) by (simp add: fx_toolkit_def)
  have h': "fontMetrics_height fx_toolkit (op_font ?syn') = 16"
    using body'(1) by (simp add: fx_toolkit_def)
  have "sint (rect_height (op_rect ?syn)) = 80"
    unfolding body(3) h hB tall by simp
  moreover have "sint (rect_height (op_rect ?syn')) = 22"
    unfolding body'(2) h' hB short by simp
  moreover have "op_text ?syn = ''A story.''"
    unfolding body(1) item by (simp add: fx_toolkit_def fx_item_def)
  ultimately show ?thesis
    using one two h h' tall short by auto
qed



text \<open>
  C10. A paint call that returns leaves the painter's current state (font, pen, clip
  path) and its stack of saved states as they were on entry, although the body has changed
  the pen and the clip path before the state saver is destroyed. So a paint call that
  follows it starts from the same state, and ends in it.
\<close>

theorem paint_restores_painter_state:
  assumes first: "paint tk this p option index = Inr p'"
    and second: "paint tk this p' option' index' = Inr p''"
  shows "cur p' = cur p \<and> saved p' = saved p \<and> cur p'' = cur p \<and> saved p'' = saved p \<and>
         (\<exists>q. paint_body tk this (PainterStateSaver_ctor p) option index = Inr q \<and>
              p' = PainterStateSaver_dtor q \<and>
              ps_pen (cur q) = brush_color (placeholderText (opt_palette option)) \<and>
              ps_clipPath (cur q) = Some [RoundedRect (opt_rect option) 4 4])"
proof -
  from paint_effect [OF first] obtain m item
    where m: "model index = Some m" and item: "getAnime m (row index) (column index) = Some item"
      and one: "cur p' = cur p" "saved p' = saved p"
    by blast
  from paint_effect [OF second] have two: "cur p'' = cur p'" "saved p'' = saved p'"
    by blast+
  from first obtain q
    where q: "paint_body tk this (PainterStateSaver_ctor p) option index = Inr q"
      and p': "p' = PainterStateSaver_dtor q"
    by (auto simp: paint_def split: sum.splits)
  from paint_body_effect(2) [OF m item q]
  have "ps_pen (cur q) = brush_color (placeholderText (opt_palette option))"
    and "ps_clipPath (cur q) = Some [RoundedRect (opt_rect option) 4 4]"
    by simp_all
  with one two q p' show ?thesis by simp
qed

theorem paint_restores_painter_state_witness:
  "\<exists>p' p''. paint fx_toolkit fx_delegate fx_painter fx_option fx_index = Inr p' \<and>
      paint fx_toolkit fx_delegate p' fx_option fx_other_index = Inr p'' \<and>
      cur p' = cur fx_painter \<and> cur p'' = cur fx_painter \<and>
      ps_pen (cur fx_painter) = QColor 0 \<and>
      brush_color (placeholderText (opt_palette fx_option)) = QColor 5"
proof -
  obtain p' where one: "paint fx_toolkit fx_delegate fx_painter fx_option fx_index = Inr p'"
    using paint_returns [OF fx_model_index(1,2)] by blast
  obtain p'' where two: "paint fx_toolkit fx_delegate p' fx_option fx_other_index = Inr p''"
    using paint_returns [OF fx_model_index(3,4)] by blast
  from paint_restores_painter_state [OF one two] one two show ?thesis
    by (auto simp: fx_painter_def fx_option_def fx_palette_def)
qed

end
